theory Spec2Isabelle
  imports Main
begin

section \<open>Values of package mgoHelpers\<close>

text \<open>
  What the hexadecimal decoder of Go's library reports: a byte that is not a digit, or an
  odd length.
\<close>

datatype hex_error = InvalidByteError char | ErrLength

text \<open>
  The three error values the package declares (main.go, lines 15 to 17), the not-found
  sentinel of the store driver that \<open>FindById\<close> compares against, the error of the
  identifier decoder, and any other error value handed back by the driver. The decoder's
  error reads \<open>invalid ObjectId in JSON:\<close> followed by the text it was given;
  when the text had the right shape and the hexadecimal decoder refused it, that decoder's
  message follows in brackets.
\<close>

datatype error =
    errNoFactoryFunc
  | errBulkOpAborted
  | errPanic
  | ErrNotFound
  | InvalidObjectId string "hex_error option"
  | LibError string

text \<open>
  A Go call either returns or panics. A panic unwinds through the deferred functions of
  the frames it crosses; \<open>Panicked\<close> is what a caller sees when nothing recovered it.
\<close>

datatype 'a outcome = Returned 'a | Panicked

text \<open>
  \<open>bson.ObjectId\<close> is a string type holding the raw bytes of the identifier.
  \<open>DbEntryBase\<close> is the struct domain entries embed; a domain entry is an extension of
  the record. A \<open>MongoEntry\<close> is an interface value: \<open>None\<close> is the nil interface.
\<close>

type_synonym ObjectId = string

record DbEntryBase =
  ID :: ObjectId

type_synonym 'x MongoEntry = "'x DbEntryBase_scheme option"

definition BsonID :: "'x DbEntryBase_scheme \<Rightarrow> ObjectId" where
  "BsonID e = ID e"

definition SetBsonID :: "ObjectId \<Rightarrow> 'x DbEntryBase_scheme \<Rightarrow> 'x DbEntryBase_scheme" where
  "SetBsonID i e = e\<lparr>ID := i\<rparr>"

section \<open>The store driver, as the package calls it\<close>

text \<open>
  The arguments the package builds for the driver: an object identifier, an entry, or a
  \<open>bson.M\<close> document given by its key/value pairs.
\<close>

datatype 'd bval =
    ValObjectId ObjectId
  | ValEntry 'd
  | ValM "(string \<times> 'd bval) list"

text \<open>
  One constructor for each driver operation main.go performs on
  \<open>sess.DB("").C(coll)\<close>: \<open>Insert(v...)\<close>, \<open>Find(q).All(v)\<close>, \<open>FindId(id).One(v)\<close>,
  \<open>Update(selector, update)\<close> and \<open>RemoveAll(selector)\<close>.
\<close>

datatype 'd mgo_call =
    C_Insert string "'d list"
  | C_Find_All string "'d bval"
  | C_FindId_One string string
  | C_Update string "'d bval" "'d bval"
  | C_RemoveAll string "'d bval"

text \<open>
  What a run does, in order: taking and releasing the collection's mutex, invoking the
  factory on a parameter, and calling the driver.
\<close>

datatype ('p, 'd) event =
    Lock
  | Unlock
  | FactoryCall 'p
  | Mgo "'d mgo_call"

type_synonym ('p, 'd) trace = "('p, 'd) event list"

text \<open>
  The driver is outside the package. \<open>sess\<close> gives, for the events so far and the call
  made, what the driver answers: an error value (\<open>None\<close> is nil), or a panic.
\<close>

record ('p, 'd) MongoDb =
  sess :: "('p, 'd) trace \<Rightarrow> 'd mgo_call \<Rightarrow> error option outcome"

record ('p, 'd) MongoStorageInfo =
  Database :: "('p, 'd) MongoDb"
  Collection :: string

text \<open>
  The write operations among the driver calls; the two finds only read.
\<close>

fun is_write :: "('p, 'd) event \<Rightarrow> bool" where
  "is_write (Mgo (C_Insert c v)) = True"
| "is_write (Mgo (C_Update c s u)) = True"
| "is_write (Mgo (C_RemoveAll c s)) = True"
| "is_write e = False"

definition writes :: "('p, 'd) trace \<Rightarrow> ('p, 'd) trace" where
  "writes tr = filter is_write tr"

text \<open>
  Every method of \<open>MongoDb\<close> copies the session, performs exactly one driver operation and
  closes the copy; \<open>session_call\<close> is that shared frame, recording the operation.
\<close>

definition session_call ::
  "('p, 'd) MongoDb \<Rightarrow> 'd mgo_call \<Rightarrow> ('p, 'd) trace \<Rightarrow> error option outcome \<times> ('p, 'd) trace" where
  "session_call db call tr = (sess db tr call, tr @ [Mgo call])"

definition Db_Insert ::
  "('p, 'd) MongoDb \<Rightarrow> string \<Rightarrow> 'd list \<Rightarrow> ('p, 'd) trace \<Rightarrow> error option outcome \<times> ('p, 'd) trace" where
  "Db_Insert db coll v tr = session_call db (C_Insert coll v) tr"

definition Db_FindById ::
  "('p, 'd) MongoDb \<Rightarrow> string \<Rightarrow> string \<Rightarrow> ('p, 'd) trace \<Rightarrow> bool outcome \<times> ('p, 'd) trace" where
  "Db_FindById db coll i tr =
     (case session_call db (C_FindId_One coll i) tr of
        (Returned e, tr') \<Rightarrow> (Returned (Some ErrNotFound \<noteq> e), tr')
      | (Panicked, tr') \<Rightarrow> (Panicked, tr'))"

definition Db_FindAll ::
  "('p, 'd) MongoDb \<Rightarrow> string \<Rightarrow> ('p, 'd) trace \<Rightarrow> error option outcome \<times> ('p, 'd) trace" where
  "Db_FindAll db coll tr = session_call db (C_Find_All coll (ValM [])) tr"

definition Db_Update ::
  "('p, 'd) MongoDb \<Rightarrow> string \<Rightarrow> 'd bval \<Rightarrow> 'd bval \<Rightarrow> ('p, 'd) trace
     \<Rightarrow> error option outcome \<times> ('p, 'd) trace" where
  "Db_Update db coll i v tr =
     session_call db (C_Update coll (ValM [(''_id'', i)]) (ValM [(''$set'', v)])) tr"

definition Db_Remove ::
  "('p, 'd) MongoDb \<Rightarrow> string \<Rightarrow> 'd bval \<Rightarrow> ('p, 'd) trace \<Rightarrow> error option outcome \<times> ('p, 'd) trace" where
  "Db_Remove db coll i tr = session_call db (C_RemoveAll coll (ValM [(''_id'', i)])) tr"

definition Db_RemoveAll ::
  "('p, 'd) MongoDb \<Rightarrow> string \<Rightarrow> ('p, 'd) trace \<Rightarrow> error option outcome \<times> ('p, 'd) trace" where
  "Db_RemoveAll db coll tr = session_call db (C_RemoveAll coll (ValM [])) tr"

section \<open>Parsing an identifier\<close>

text \<open>
  \<open>GetObjectIDFromString\<close> uses two functions of the bson library: \<open>NewObjectId\<close>, which
  yields a fresh identifier, and the method \<open>UnmarshalJSON\<close>, which reads JSON text into
  its receiver and returns an error. Both are parameters here: \<open>UnmarshalJSON b data\<close> is
  the receiver after the call, started from \<open>b\<close>, and the error.
\<close>

record bson =
  NewObjectId :: ObjectId
  UnmarshalJSON :: "ObjectId \<Rightarrow> string \<Rightarrow> ObjectId \<times> error option"

definition GetObjectIDFromString :: "bson \<Rightarrow> string \<Rightarrow> ObjectId \<times> error option" where
  "GetObjectIDFromString lib s =
     (let b = NewObjectId lib
      in UnmarshalJSON lib b ([CHR 0x22] @ s @ [CHR 0x22]))"

section \<open>Collections\<close>

record 'x EntryErrorPair =
  Entry :: "'x MongoEntry"
  Error :: "error option"

type_synonym 'x EntryErrorPairs = "'x EntryErrorPair list"

fun CheckPartFail :: "'x EntryErrorPairs \<Rightarrow> bool" where
  "CheckPartFail [] = False"
| "CheckPartFail (v # p) = (if Error v \<noteq> None then True else CheckPartFail p)"

definition MakeEntrySlice :: "'x EntryErrorPairs \<Rightarrow> 'x MongoEntry list" where
  "MakeEntrySlice p = map Entry p"

text \<open>
  A collection embeds the storage info and a mutex and holds the factory, \<open>None\<close> while
  none is installed. The Go factory takes the collection as its first argument; the
  collection is the same throughout a call, so \<open>factoryFunc\<close> is the Go factory with that
  argument supplied. It returns an entry (possibly nil) or panics, and does not itself
  call the driver.
\<close>

record ('p, 'x) MongoCollection = "('p, 'x MongoEntry) MongoStorageInfo" +
  factoryFunc :: "('p \<Rightarrow> 'x MongoEntry outcome) option"

type_synonym ('p, 'x, 'r) proc =
  "('p, 'x MongoEntry) trace \<Rightarrow> 'r outcome \<times> ('p, 'x MongoEntry) trace"

text \<open>
  \<open>MutexExec\<close> locks, defers the unlock and runs the callback: the unlock happens
  whether the callback returns or panics, and a panic goes on to the caller.
\<close>

definition MutexExec :: "('p, 'x, 'r) proc \<Rightarrow> ('p, 'x, 'r) proc" where
  "MutexExec cb tr = (case cb (tr @ [Lock]) of (r, tr') \<Rightarrow> (r, tr' @ [Unlock]))"

definition SetFactoryFunc ::
  "('p \<Rightarrow> 'x MongoEntry outcome) option \<Rightarrow> ('p, 'x) MongoCollection \<Rightarrow> ('p, 'x) MongoCollection" where
  "SetFactoryFunc f c = c\<lparr>factoryFunc := f\<rparr>"

definition insertCore ::
  "('p, 'x) MongoCollection \<Rightarrow> 'x MongoEntry list \<Rightarrow> ('p, 'x, error option) proc" where
  "insertCore c entries tr = Db_Insert (Database c) (Collection c) (map (\<lambda>v. v) entries) tr"

definition makeOne ::
  "('p, 'x) MongoCollection \<Rightarrow> 'p \<Rightarrow> ('p, 'x, 'x MongoEntry \<times> error option) proc" where
  "makeOne c factoryFuncParam tr =
     (case factoryFunc c of
        None \<Rightarrow> (Returned (None, Some errNoFactoryFunc), tr)
      | Some f \<Rightarrow>
          (case f factoryFuncParam of
             Panicked \<Rightarrow> (Panicked, tr @ [FactoryCall factoryFuncParam])
           | Returned entry \<Rightarrow> (Returned (entry, None), tr @ [FactoryCall factoryFuncParam])))"

text \<open>
  The loop of \<open>createCore\<close>: one \<open>makeOne\<close> per parameter, each pair appended to
  \<open>entryerr\<close>; a panic of the factory ends the loop.
\<close>

fun createCore_loop ::
  "('p, 'x) MongoCollection \<Rightarrow> 'p list \<Rightarrow> 'x EntryErrorPairs \<Rightarrow> ('p, 'x, 'x EntryErrorPairs) proc" where
  "createCore_loop c [] entryerr tr = (Returned entryerr, tr)"
| "createCore_loop c (params # rest) entryerr tr =
     (case makeOne c params tr of
        (Panicked, tr') \<Rightarrow> (Panicked, tr')
      | (Returned (entry, eErr), tr') \<Rightarrow>
          createCore_loop c rest (entryerr @ [\<lparr>Entry = entry, Error = eErr\<rparr>]) tr')"

definition createCore ::
  "('p, 'x) MongoCollection \<Rightarrow> 'p list \<Rightarrow> ('p, 'x, 'x MongoEntry list \<times> error option) proc" where
  "createCore c factoryFuncParamSet tr =
     (case createCore_loop c factoryFuncParamSet [] tr of
        (Panicked, tr') \<Rightarrow> (Panicked, tr')
      | (Returned entryerr, tr') \<Rightarrow>
          if CheckPartFail entryerr then (Returned ([], Some errBulkOpAborted), tr')
          else
            (let entries = MakeEntrySlice entryerr
             in case insertCore c entries tr' of
                  (Panicked, tr'') \<Rightarrow> (Panicked, tr'')
                | (Returned err, tr'') \<Rightarrow> (Returned (entries, err), tr'')))"

definition Insert :: "('p, 'x) MongoCollection \<Rightarrow> 'x MongoEntry \<Rightarrow> ('p, 'x, error option) proc" where
  "Insert c entry tr = MutexExec (insertCore c [entry]) tr"

definition InsertBulk ::
  "('p, 'x) MongoCollection \<Rightarrow> 'x MongoEntry list \<Rightarrow> ('p, 'x, error option) proc" where
  "InsertBulk c entries tr = MutexExec (insertCore c entries) tr"

text \<open>
  \<open>Create\<close> has no recover: a panic under it reaches the caller. \<open>entries[0]\<close> on an
  empty slice is Go's index-out-of-range panic.
\<close>

definition Create ::
  "('p, 'x) MongoCollection \<Rightarrow> 'p \<Rightarrow> ('p, 'x, 'x MongoEntry \<times> error option) proc" where
  "Create c factoryFuncParams tr =
     (case MutexExec (createCore c [factoryFuncParams]) tr of
        (Panicked, tr') \<Rightarrow> (Panicked, tr')
      | (Returned (entries, err), tr') \<Rightarrow>
          if err \<noteq> None then (Returned (None, err), tr')
          else
            (case entries of
               [] \<Rightarrow> (Panicked, tr')
             | e # rest \<Rightarrow> (Returned (e, None), tr')))"

text \<open>
  \<open>CreateBulk\<close> defers a recover: when the body panics the named results are still
  \<open>entries = nil\<close>, and \<open>err\<close> is set to \<open>errPanic\<close>.
\<close>

definition CreateBulk ::
  "('p, 'x) MongoCollection \<Rightarrow> 'p list \<Rightarrow> ('p, 'x, 'x MongoEntry list \<times> error option) proc" where
  "CreateBulk c factoryFuncParamSet tr =
     (case MutexExec (createCore c factoryFuncParamSet) tr of
        (Panicked, tr') \<Rightarrow> (Returned ([], Some errPanic), tr')
      | (Returned (entries, err), tr') \<Rightarrow>
          if err \<noteq> None then (Returned ([], err), tr')
          else (Returned (entries, None), tr'))"

text \<open>
  \<open>Read\<close> hands the identifier string to \<open>FindById\<close> and returns its boolean; the entry
  decoded into the caller's \<open>result\<close> is not part of the model.
\<close>

definition Read :: "('p, 'x) MongoCollection \<Rightarrow> string \<Rightarrow> ('p, 'x, bool) proc" where
  "Read c entryID tr = Db_FindById (Database c) (Collection c) entryID tr"

definition ReadAll :: "('p, 'x) MongoCollection \<Rightarrow> ('p, 'x, error option) proc" where
  "ReadAll c tr =
     (case Db_FindAll (Database c) (Collection c) tr of
        (Panicked, tr') \<Rightarrow> (Returned (Some errPanic), tr')
      | (Returned err, tr') \<Rightarrow> (Returned err, tr'))"

text \<open>
  \<open>Update\<close> runs wholly under the mutex and has no recover. Calling a nil factory panics,
  and so does \<open>SetBsonID\<close> on a nil entry.
\<close>

definition Update ::
  "bson \<Rightarrow> ('p, 'x) MongoCollection \<Rightarrow> string \<Rightarrow> 'p \<Rightarrow> ('p, 'x, 'x MongoEntry \<times> error option) proc" where
  "Update lib c entryID factoryFuncParam tr =
     MutexExec (\<lambda>tr.
       case GetObjectIDFromString lib entryID of
         (b, idParseErr) \<Rightarrow>
           if idParseErr \<noteq> None then (Returned (None, idParseErr), tr)
           else
             (case factoryFunc c of
                None \<Rightarrow> (Panicked, tr)
              | Some f \<Rightarrow>
                  (case f factoryFuncParam of
                     Panicked \<Rightarrow> (Panicked, tr @ [FactoryCall factoryFuncParam])
                   | Returned None \<Rightarrow> (Panicked, tr @ [FactoryCall factoryFuncParam])
                   | Returned (Some e) \<Rightarrow>
                       (let newEntry = SetBsonID b e
                        in case Db_Update (Database c) (Collection c) (ValObjectId b)
                                  (ValEntry (Some newEntry)) (tr @ [FactoryCall factoryFuncParam]) of
                             (Panicked, tr') \<Rightarrow> (Panicked, tr')
                           | (Returned err, tr') \<Rightarrow> (Returned (Some newEntry, err), tr'))))) tr"

definition Delete :: "bson \<Rightarrow> ('p, 'x) MongoCollection \<Rightarrow> string \<Rightarrow> ('p, 'x, error option) proc" where
  "Delete lib c entryID tr =
     MutexExec (\<lambda>tr.
       case GetObjectIDFromString lib entryID of
         (b, idParseErr) \<Rightarrow>
           if idParseErr \<noteq> None then (Returned idParseErr, tr)
           else Db_Remove (Database c) (Collection c) (ValObjectId b) tr) tr"

definition DeleteAll :: "('p, 'x) MongoCollection \<Rightarrow> ('p, 'x, error option) proc" where
  "DeleteAll c tr = MutexExec (Db_RemoveAll (Database c) (Collection c)) tr"

definition NewMongoCollection ::
  "('p, 'x MongoEntry) MongoDb \<Rightarrow> string \<Rightarrow> ('p, 'x) MongoCollection" where
  "NewMongoCollection dbInstance collName =
     \<lparr>Database = dbInstance, Collection = collName, factoryFunc = None\<rparr>"

section \<open>The identifier decoder\<close>

text \<open>
  Modelled from the spec: the value of a hexadecimal digit, for the decoder
  \<open>bson.ObjectId.UnmarshalJSON\<close>, which belongs to the bson library and is not among the
  sources. The spec gives the canonical text of an identity as a 24-character hexadecimal
  string.
\<close>

definition hex_val :: "char \<Rightarrow> nat option" where
  "hex_val ch =
     (let n = (of_char ch :: nat)
      in if 48 \<le> n \<and> n \<le> 57 then Some (n - 48)
         else if 97 \<le> n \<and> n \<le> 102 then Some (n - 87)
         else if 65 \<le> n \<and> n \<le> 70 then Some (n - 55)
         else None)"

text \<open>
  Modelled from the spec: the bytes a hexadecimal string stands for, two digits a byte,
  for the same missing decoder. The first character that is not a digit is reported, as
  Go's \<open>hex.Decode\<close> does; an odd length is reported after the digits before it.
\<close>

fun hex_decode :: "string \<Rightarrow> hex_error + string" where
  "hex_decode [] = Inr []"
| "hex_decode [a] =
     (case hex_val a of
        None \<Rightarrow> Inl (InvalidByteError a)
      | Some h \<Rightarrow> Inl ErrLength)"
| "hex_decode (a # b # rest) =
     (case hex_val a of
        None \<Rightarrow> Inl (InvalidByteError a)
      | Some h \<Rightarrow>
          (case hex_val b of
             None \<Rightarrow> Inl (InvalidByteError b)
           | Some l \<Rightarrow>
               (case hex_decode rest of
                  Inl bad \<Rightarrow> Inl bad
                | Inr raw \<Rightarrow> Inr (char_of (16 * h + l) # raw))))"

text \<open>
  Modelled from the spec: the canonical textual form of an identity, a 24-character
  hexadecimal string. Every other string is malformed.
\<close>

definition wellformed_id :: "string \<Rightarrow> bool" where
  "wellformed_id s =
     (length s = 24 \<and> (case hex_decode s of Inl bad \<Rightarrow> False | Inr raw \<Rightarrow> True))"

text \<open>
  Modelled from the spec: \<open>bson.ObjectId.UnmarshalJSON\<close>, missing from the sources. A
  quoted 24-character hexadecimal string is decoded into the receiver. Where the spec is
  silent the decoder is taken as the library has it: the empty JSON string (two quotation
  marks) and the text \<open>null\<close> set the receiver to the empty identifier and are no error;
  any other text that is not 26 characters between quotation marks is refused; a text of
  that shape whose 24 characters are not all digits is refused with the hexadecimal
  decoder's finding. A refusal leaves the receiver as it was. The library's extended
  forms, which begin with a brace or the letter O, cannot come from
  \<open>GetObjectIDFromString\<close>, whose text always begins with a quotation mark, and are not
  told apart here.
\<close>

definition UnmarshalJSON_spec :: "ObjectId \<Rightarrow> string \<Rightarrow> ObjectId \<times> error option" where
  "UnmarshalJSON_spec b data =
     (if data = [CHR 0x22, CHR 0x22] \<or> data = ''null'' then ([], None)
      else if length data \<noteq> 26 \<or> data ! 0 \<noteq> CHR 0x22 \<or> data ! 25 \<noteq> CHR 0x22
        then (b, Some (InvalidObjectId data None))
      else
        (case hex_decode (take 24 (drop 1 data)) of
           Inl bad \<Rightarrow> (b, Some (InvalidObjectId data (Some bad)))
         | Inr raw \<Rightarrow> (raw, None)))"

text \<open>
  Modelled from the spec: the bson library with the decoder above; \<open>fresh\<close> is the
  identifier \<open>bson.NewObjectId\<close> hands out in the call at hand.
\<close>

definition bson_spec :: "ObjectId \<Rightarrow> bson" where
  "bson_spec fresh = \<lparr>NewObjectId = fresh, UnmarshalJSON = UnmarshalJSON_spec\<rparr>"

section \<open>Observing a call\<close>

text \<open>The events a call adds to the trace it starts from.\<close>

definition issued ::
  "('p, 'x, 'r) proc \<Rightarrow> ('p, 'x MongoEntry) trace \<Rightarrow> ('p, 'x MongoEntry) trace" where
  "issued m tr = drop (length tr) (snd (m tr))"

text \<open>
  The driver call of a full-document replace, in the spec's words: the update keyed by the
  identity whose update document is the entry itself, with no update operator around it.
\<close>

definition full_document_replace :: "string \<Rightarrow> ObjectId \<Rightarrow> 'd \<Rightarrow> 'd mgo_call" where
  "full_document_replace coll b e = C_Update coll (ValM [(''_id'', ValObjectId b)]) (ValEntry e)"

fun is_mutex :: "('p, 'd) event \<Rightarrow> bool" where
  "is_mutex Lock = True"
| "is_mutex Unlock = True"
| "is_mutex e = False"

text \<open>
  The events of a call that took the mutex first, released it last and did not touch it
  in between.
\<close>

definition under_lock :: "('p, 'd) trace \<Rightarrow> bool" where
  "under_lock evs =
     (case evs of
        [] \<Rightarrow> False
      | e # rest \<Rightarrow>
          e = Lock \<and> rest \<noteq> [] \<and> last rest = Unlock \<and> filter is_mutex (butlast rest) = [])"

section \<open>A collection of widgets\<close>

text \<open>
  A domain entry with one field besides the identity, a factory that builds it from its
  name and panics on the empty name, a driver that accepts every call and one that fails
  every call, and three collections over them: \<open>widgets\<close> with the factory installed,
  \<open>orphans\<close> without a factory, \<open>lost\<close> on the failing driver.
\<close>

record widget = DbEntryBase +
  name :: string

definition widget_factory :: "string \<Rightarrow> widget option outcome" where
  "widget_factory n =
     (if n = [] then Panicked else Returned (Some \<lparr>ID = [], name = n\<rparr>))"

definition db_ok :: "(string, widget option) MongoDb" where
  "db_ok = \<lparr>sess = (\<lambda>tr call. Returned None)\<rparr>"

definition db_down :: "(string, widget option) MongoDb" where
  "db_down = \<lparr>sess = (\<lambda>tr call. Returned (Some (LibError ''no reachable servers'')))\<rparr>"

definition widgets :: "(string, unit widget_ext) MongoCollection" where
  "widgets = SetFactoryFunc (Some widget_factory) (NewMongoCollection db_ok ''widgets'')"

definition orphans :: "(string, unit widget_ext) MongoCollection" where
  "orphans = NewMongoCollection db_ok ''widgets''"

definition lost :: "(string, unit widget_ext) MongoCollection" where
  "lost = NewMongoCollection db_down ''widgets''"

section \<open>The construction loop\<close>

lemma CheckPartFail_all_ok:
  "CheckPartFail (map (\<lambda>e. \<lparr>Entry = e, Error = None\<rparr>) es) = False"
  by (induction es) simp_all

lemma CheckPartFail_all_failed:
  "ps \<noteq> [] \<Longrightarrow> CheckPartFail (map (\<lambda>p. \<lparr>Entry = None, Error = Some err\<rparr>) ps) = True"
  by (cases ps) simp_all

text \<open>One failed pair anywhere in the list is enough for the check to report a failure.\<close>

lemma CheckPartFail_member:
  "v \<in> set p \<Longrightarrow> Error v \<noteq> None \<Longrightarrow> CheckPartFail p"
  by (induction p) auto

text \<open>Without a factory every parameter yields the pair (nil, \<open>errNoFactoryFunc\<close>).\<close>

lemma createCore_loop_no_factory:
  "factoryFunc c = None \<Longrightarrow>
   createCore_loop c ps acc tr =
     (Returned (acc @ map (\<lambda>p. \<lparr>Entry = None, Error = Some errNoFactoryFunc\<rparr>) ps), tr)"
  by (induction ps arbitrary: acc) (simp_all add: makeOne_def)

text \<open>When the factory returns on every parameter, the loop collects its results in order.\<close>

lemma createCore_loop_success:
  "factoryFunc c = Some f \<Longrightarrow> map f ps = map Returned es \<Longrightarrow>
   createCore_loop c ps acc tr =
     (Returned (acc @ map (\<lambda>e. \<lparr>Entry = e, Error = None\<rparr>) es), tr @ map FactoryCall ps)"
proof (induction ps arbitrary: acc tr es)
  case Nil
  then show ?case by simp
next
  case (Cons p ps)
  then obtain e es' where es: "es = e # es'" "f p = Returned e" "map f ps = map Returned es'"
    by (cases es) auto
  show ?case
    using Cons.IH [OF Cons.prems(1) es(3)] Cons.prems(1) es(1,2)
    by (simp add: makeOne_def)
qed

text \<open>With a factory installed, either it returns on every parameter or the loop panics.\<close>

lemma createCore_loop_cases:
  "factoryFunc c = Some f \<Longrightarrow>
   (\<exists>es. map f ps = map Returned es) \<or>
   (\<exists>k. createCore_loop c ps acc tr = (Panicked, tr @ map FactoryCall (take k ps)))"
proof (induction ps arbitrary: acc tr)
  case Nil
  then show ?case by simp
next
  case (Cons p ps)
  show ?case
  proof (cases "f p")
    case Panicked
    have "createCore_loop c (p # ps) acc tr = (Panicked, tr @ map FactoryCall (take 1 (p # ps)))"
      using Cons.prems Panicked by (simp add: makeOne_def)
    then show ?thesis by blast
  next
    case (Returned e)
    from Cons.IH [OF Cons.prems, of "acc @ [\<lparr>Entry = e, Error = None\<rparr>]" "tr @ [FactoryCall p]"]
    show ?thesis
    proof
      assume "\<exists>es. map f ps = map Returned es"
      then obtain es where "map f ps = map Returned es" ..
      then have "map f (p # ps) = map Returned (e # es)" using Returned by simp
      then show ?thesis by blast
    next
      assume "\<exists>k. createCore_loop c ps (acc @ [\<lparr>Entry = e, Error = None\<rparr>]) (tr @ [FactoryCall p])
                = (Panicked, (tr @ [FactoryCall p]) @ map FactoryCall (take k ps))"
      then obtain k where
        "createCore_loop c ps (acc @ [\<lparr>Entry = e, Error = None\<rparr>]) (tr @ [FactoryCall p])
           = (Panicked, (tr @ [FactoryCall p]) @ map FactoryCall (take k ps))" ..
      then have "createCore_loop c (p # ps) acc tr
           = (Panicked, tr @ map FactoryCall (take (Suc k) (p # ps)))"
        using Cons.prems Returned by (simp add: makeOne_def)
      then show ?thesis by blast
    qed
  qed
qed

lemma map_Returned_list_all2:
  "map f ps = map Returned es \<Longrightarrow> list_all2 (\<lambda>p d. f p = Returned d) ps es"
  by (induction ps arbitrary: es) auto

lemma makeOne_Some:
  "factoryFunc c = Some f \<Longrightarrow>
   (fst (makeOne c p tr) = Returned (d, None)) = (f p = Returned d)"
  by (simp add: makeOne_def split: outcome.splits)

text \<open>
  The factory has no error result: the only construction error \<open>makeOne\<close> reports is
  the missing factory.
\<close>

lemma makeOne_error_no_factory:
  "fst (makeOne c p tr) = Returned (e, Some err) \<Longrightarrow> factoryFunc c = None"
  by (auto simp: makeOne_def split: option.splits outcome.splits)

section \<open>The runs of CreateBulk\<close>

lemma CreateBulk_no_factory:
  "factoryFunc c = None \<Longrightarrow> ps \<noteq> [] \<Longrightarrow>
   CreateBulk c ps tr = (Returned ([], Some errBulkOpAborted), tr @ [Lock, Unlock])"
  by (simp add: CreateBulk_def MutexExec_def createCore_def createCore_loop_no_factory
      CheckPartFail_all_failed)

lemma CreateBulk_success:
  "factoryFunc c = Some f \<Longrightarrow> map f ps = map Returned es \<Longrightarrow>
   CreateBulk c ps tr =
     (case sess (Database c) (tr @ [Lock] @ map FactoryCall ps) (C_Insert (Collection c) es) of
        Returned err \<Rightarrow> if err \<noteq> None then Returned ([], err) else Returned (es, None)
      | Panicked \<Rightarrow> Returned ([], Some errPanic),
      tr @ [Lock] @ map FactoryCall ps @ [Mgo (C_Insert (Collection c) es), Unlock])"
  by (simp add: CreateBulk_def MutexExec_def createCore_def createCore_loop_success
      CheckPartFail_all_ok MakeEntrySlice_def insertCore_def Db_Insert_def session_call_def
      comp_def split: outcome.splits)

text \<open>The construction loop calls the factory and nothing else: it issues no write.\<close>

lemma createCore_loop_no_writes:
  "\<exists>body. snd (createCore_loop c ps acc tr) = tr @ body \<and> filter is_write body = []"
proof (induction ps arbitrary: acc tr)
  case Nil
  show ?case by simp
next
  case (Cons p ps)
  have "\<exists>b1. snd (makeOne c p tr) = tr @ b1 \<and> filter is_write b1 = []"
    by (simp add: makeOne_def split: option.splits outcome.splits)
  then obtain b1 where b1: "snd (makeOne c p tr) = tr @ b1" "filter is_write b1 = []"
    by blast
  show ?case
  proof (cases "fst (makeOne c p tr)")
    case Panicked
    with b1 show ?thesis
      by (cases "makeOne c p tr") simp
  next
    case (Returned pr)
    obtain entry eErr where pr: "pr = (entry, eErr)" by (cases pr)
    from Cons.IH [of "acc @ [\<lparr>Entry = entry, Error = eErr\<rparr>]" "tr @ b1"]
    obtain b2 where
      b2: "snd (createCore_loop c ps (acc @ [\<lparr>Entry = entry, Error = eErr\<rparr>]) (tr @ b1))
             = (tr @ b1) @ b2" "filter is_write b2 = []"
      by blast
    have "snd (createCore_loop c (p # ps) acc tr) = tr @ (b1 @ b2)"
      using Returned pr b1(1) b2(1) by (cases "makeOne c p tr") simp
    moreover have "filter is_write (b1 @ b2) = []"
      using b1(2) b2(2) by simp
    ultimately show ?thesis by blast
  qed
qed

text \<open>
  If the loop ends with a failed pair anywhere among its pairs, \<open>CreateBulk\<close> aborts:
  it releases the mutex and returns \<open>errBulkOpAborted\<close>, and has issued no write.
\<close>

lemma CreateBulk_part_fail:
  assumes "createCore_loop c ps [] (tr @ [Lock]) = (Returned entryerr, tr')"
    and "v \<in> set entryerr" and "Error v \<noteq> None"
  shows "CreateBulk c ps tr = (Returned ([], Some errBulkOpAborted), tr' @ [Unlock])"
    and "writes (issued (CreateBulk c ps) tr) = []"
proof -
  have cpf: "CheckPartFail entryerr"
    using assms(2,3) by (rule CheckPartFail_member)
  show res: "CreateBulk c ps tr = (Returned ([], Some errBulkOpAborted), tr' @ [Unlock])"
    using assms(1) cpf by (simp add: CreateBulk_def MutexExec_def createCore_def)
  from createCore_loop_no_writes [of c ps "[]" "tr @ [Lock]"] assms(1)
  obtain body where "tr' = (tr @ [Lock]) @ body" "filter is_write body = []"
    by auto
  with res show "writes (issued (CreateBulk c ps) tr) = []"
    by (simp add: issued_def writes_def)
qed

lemma CreateBulk_panic:
  "createCore_loop c ps [] (tr @ [Lock]) = (Panicked, tr') \<Longrightarrow>
   CreateBulk c ps tr = (Returned ([], Some errPanic), tr' @ [Unlock])"
  by (simp add: CreateBulk_def MutexExec_def createCore_def)

lemma CreateBulk_empty:
  "CreateBulk c [] tr =
     (case sess (Database c) (tr @ [Lock]) (C_Insert (Collection c) []) of
        Returned err \<Rightarrow> if err \<noteq> None then Returned ([], err) else Returned ([], None)
      | Panicked \<Rightarrow> Returned ([], Some errPanic),
      tr @ [Lock, Mgo (C_Insert (Collection c) []), Unlock])"
  by (simp add: CreateBulk_def MutexExec_def createCore_def
      MakeEntrySlice_def insertCore_def Db_Insert_def session_call_def
      split: outcome.splits)

text \<open>
  Whatever \<open>CreateBulk\<close> inserts is, entry by entry, what the factory built from the
  parameter in the same position.
\<close>

lemma CreateBulk_inserts_constructed:
  assumes "Mgo (C_Insert coll docs) \<in> set (issued (CreateBulk c ps) tr)"
  shows "list_all2 (\<lambda>p d. fst (makeOne c p []) = Returned (d, None)) ps docs"
proof (cases "factoryFunc c")
  case None
  show ?thesis
  proof (cases ps)
    case Nil
    with assms show ?thesis by (simp add: issued_def CreateBulk_empty)
  next
    case (Cons p ps')
    with assms None show ?thesis by (simp add: issued_def CreateBulk_no_factory)
  qed
next
  case (Some f)
  from createCore_loop_cases [OF Some, of ps "[]" "tr @ [Lock]"]
  show ?thesis
  proof
    assume "\<exists>es. map f ps = map Returned es"
    then obtain es where es: "map f ps = map Returned es" ..
    with assms Some have "docs = es"
      by (auto simp: issued_def CreateBulk_success)
    with es Some show ?thesis
      by (simp add: makeOne_Some map_Returned_list_all2)
  next
    assume "\<exists>k. createCore_loop c ps [] (tr @ [Lock])
              = (Panicked, (tr @ [Lock]) @ map FactoryCall (take k ps))"
    then obtain k where "createCore_loop c ps [] (tr @ [Lock])
              = (Panicked, (tr @ [Lock]) @ map FactoryCall (take k ps))" ..
    from CreateBulk_panic [OF this] assms show ?thesis
      by (auto simp: issued_def)
  qed
qed

text \<open>The two methods that defer a recover never pass a panic on.\<close>

lemma CreateBulk_recovers: "fst (CreateBulk c ps tr) \<noteq> Panicked"
  by (simp add: CreateBulk_def split: prod.splits outcome.splits)

lemma ReadAll_recovers: "fst (ReadAll c tr) \<noteq> Panicked"
  by (simp add: ReadAll_def split: prod.splits outcome.splits)

section \<open>Reading\<close>

text \<open>
  \<open>Read\<close> is false for one answer of the driver only, the not-found error; a nil error
  and every other error give true.
\<close>

lemma Read_false_iff:
  "fst (Read c entryID tr) = Returned False \<longleftrightarrow>
   sess (Database c) tr (C_FindId_One (Collection c) entryID) = Returned (Some ErrNotFound)"
  by (auto simp: Read_def Db_FindById_def session_call_def split: outcome.splits)

lemma Read_issues_one_find:
  "issued (Read c entryID) tr = [Mgo (C_FindId_One (Collection c) entryID)]"
  by (simp add: issued_def Read_def Db_FindById_def session_call_def split: outcome.splits)

section \<open>A well-formed identifier\<close>

lemma parse_example:
  "GetObjectIDFromString (bson_spec fresh) ''414243444546474849505152'' = (''ABCDEFGHIPQR'', None)"
  by code_simp

lemma quoted_decode:
  "UnmarshalJSON_spec b (CHR 0x22 # s @ [CHR 0x22]) =
     (if s = [] then ([], None)
      else if length s \<noteq> 24 then (b, Some (InvalidObjectId (CHR 0x22 # s @ [CHR 0x22]) None))
      else
        (case hex_decode s of
           Inl bad \<Rightarrow> (b, Some (InvalidObjectId (CHR 0x22 # s @ [CHR 0x22]) (Some bad)))
         | Inr raw \<Rightarrow> (raw, None)))"
  by (simp add: UnmarshalJSON_spec_def nth_append)

lemma GetObjectIDFromString_wellformed:
  "wellformed_id s \<Longrightarrow>
   \<exists>raw. hex_decode s = Inr raw \<and> GetObjectIDFromString (bson_spec fresh) s = (raw, None)"
  by (auto simp: GetObjectIDFromString_def bson_spec_def quoted_decode wellformed_id_def
      split: sum.splits)



section \<open>Runs that stop before the factory\<close>

text \<open>
  Without a factory \<open>Create\<close> returns no entry and \<open>errBulkOpAborted\<close>, whatever the
  parameter: \<open>createCore\<close> answers the failed pair with its own error, and the error
  \<open>makeOne\<close> reported is dropped with the pair list.
\<close>

lemma Create_without_factory:
  "factoryFunc c = None \<Longrightarrow>
   Create c params tr = (Returned (None, Some errBulkOpAborted), tr @ [Lock, Unlock])"
  by (simp add: Create_def MutexExec_def createCore_def makeOne_def)


section \<open>One call at a time: the mutex around each mutating method\<close>

text \<open>
  Run alone, every mutating method takes the mutex before anything else, releases it
  after everything else, and does its factory calls and driver calls in between. This is
  about one call in isolation; calls of several goroutines at once are not represented
  here.
\<close>

lemma MutexExec_under_lock:
  assumes "snd (cb (tr @ [Lock])) = (tr @ [Lock]) @ body" and "filter is_mutex body = []"
  shows "under_lock (issued (MutexExec cb) tr)"
proof -
  from assms(1) have "snd (MutexExec cb tr) = tr @ Lock # body @ [Unlock]"
    by (cases "cb (tr @ [Lock])") (simp add: MutexExec_def)
  with assms(2) show ?thesis
    by (simp add: issued_def under_lock_def butlast_append)
qed

lemma makeOne_quiet:
  "\<exists>body. snd (makeOne c p tr) = tr @ body \<and> filter is_mutex body = []"
  by (simp add: makeOne_def split: option.splits outcome.splits)

lemma createCore_loop_quiet:
  "\<exists>body. snd (createCore_loop c ps acc tr) = tr @ body \<and> filter is_mutex body = []"
proof (induction ps arbitrary: acc tr)
  case Nil
  show ?case by simp
next
  case (Cons p ps)
  from makeOne_quiet [of c p tr] obtain b1 where
    b1: "snd (makeOne c p tr) = tr @ b1" "filter is_mutex b1 = []"
    by blast
  show ?case
  proof (cases "fst (makeOne c p tr)")
    case Panicked
    with b1 show ?thesis
      by (cases "makeOne c p tr") simp
  next
    case (Returned pr)
    obtain entry eErr where pr: "pr = (entry, eErr)" by (cases pr)
    from Cons.IH [of "acc @ [\<lparr>Entry = entry, Error = eErr\<rparr>]" "tr @ b1"]
    obtain b2 where
      b2: "snd (createCore_loop c ps (acc @ [\<lparr>Entry = entry, Error = eErr\<rparr>]) (tr @ b1))
             = (tr @ b1) @ b2" "filter is_mutex b2 = []"
      by blast
    have "snd (createCore_loop c (p # ps) acc tr) = tr @ (b1 @ b2)"
      using Returned pr b1(1) b2(1) by (cases "makeOne c p tr") simp
    moreover have "filter is_mutex (b1 @ b2) = []"
      using b1(2) b2(2) by simp
    ultimately show ?thesis by blast
  qed
qed

lemma createCore_quiet:
  "\<exists>body. snd (createCore c ps tr) = tr @ body \<and> filter is_mutex body = []"
proof -
  from createCore_loop_quiet [of c ps "[]" tr] obtain b1 where
    b1: "snd (createCore_loop c ps [] tr) = tr @ b1" "filter is_mutex b1 = []"
    by blast
  show ?thesis
  proof (cases "createCore_loop c ps [] tr")
    case (Pair r tr')
    with b1 have tr': "tr' = tr @ b1" by simp
    show ?thesis
    proof (cases r)
      case Panicked
      with Pair tr' b1(2) show ?thesis by (simp add: createCore_def)
    next
      case (Returned entryerr)
      show ?thesis
      proof (cases "CheckPartFail entryerr")
        case True
        with Pair Returned tr' b1(2) show ?thesis by (simp add: createCore_def)
      next
        case False
        have "snd (createCore c ps tr)
                = tr @ (b1 @ [Mgo (C_Insert (Collection c) (MakeEntrySlice entryerr))])"
          using Pair Returned False tr'
          by (simp add: createCore_def Let_def insertCore_def Db_Insert_def session_call_def
              split: outcome.splits)
        moreover
        have "filter is_mutex (b1 @ [Mgo (C_Insert (Collection c) (MakeEntrySlice entryerr))]) = []"
          using b1(2) by simp
        ultimately show ?thesis by blast
      qed
    qed
  qed
qed

lemma Insert_under_lock: "under_lock (issued (Insert c entry) tr)"
  by (simp add: under_lock_def issued_def Insert_def MutexExec_def insertCore_def Db_Insert_def
      session_call_def)

lemma InsertBulk_under_lock: "under_lock (issued (InsertBulk c entries) tr)"
  by (simp add: under_lock_def issued_def InsertBulk_def MutexExec_def insertCore_def
      Db_Insert_def session_call_def)

lemma Create_under_lock: "under_lock (issued (Create c params) tr)"
proof -
  from createCore_quiet [of c "[params]" "tr @ [Lock]"] obtain body where
    body: "snd (createCore c [params] (tr @ [Lock])) = (tr @ [Lock]) @ body"
      "filter is_mutex body = []"
    by blast
  have "snd (Create c params tr) = snd (MutexExec (createCore c [params]) tr)"
    by (simp add: Create_def split: prod.splits outcome.splits list.splits)
  then show ?thesis
    using MutexExec_under_lock [of "createCore c [params]" tr body, OF body]
    by (simp add: issued_def)
qed

lemma CreateBulk_under_lock: "under_lock (issued (CreateBulk c ps) tr)"
proof -
  from createCore_quiet [of c ps "tr @ [Lock]"] obtain body where
    body: "snd (createCore c ps (tr @ [Lock])) = (tr @ [Lock]) @ body"
      "filter is_mutex body = []"
    by blast
  have "snd (CreateBulk c ps tr) = snd (MutexExec (createCore c ps) tr)"
    by (simp add: CreateBulk_def split: prod.splits outcome.splits)
  then show ?thesis
    using MutexExec_under_lock [of "createCore c ps" tr body, OF body]
    by (simp add: issued_def)
qed

lemma Update_under_lock: "under_lock (issued (Update lib c entryID params) tr)"
  by (simp add: under_lock_def issued_def Update_def MutexExec_def Let_def Db_Update_def
      session_call_def split: prod.splits option.splits outcome.splits)

lemma Delete_under_lock: "under_lock (issued (Delete lib c entryID) tr)"
  by (simp add: under_lock_def issued_def Delete_def MutexExec_def Db_Remove_def
      session_call_def split: prod.splits option.splits outcome.splits)

lemma DeleteAll_under_lock: "under_lock (issued (DeleteAll c) tr)"
  by (simp add: under_lock_def issued_def DeleteAll_def MutexExec_def Db_RemoveAll_def
      session_call_def)

section \<open>Create without a factory\<close>

text \<open>
  C1 says \<open>Create\<close> on a collection without a factory returns the no-factory error and
  writes nothing. On \<open>orphans\<close>, which has no factory, \<open>makeOne\<close> does report
  \<open>errNoFactoryFunc\<close>, but \<open>Create\<close> returns \<open>errBulkOpAborted\<close>, a different value:
  \<open>createCore\<close> keeps the reported error in the pair list only and answers the failed
  pair with its own error. Nothing is written: the only events are taking and releasing
  the mutex.
\<close>

theorem Create_no_factory_aborted:
  "factoryFunc orphans = None \<and>
   fst (makeOne orphans ''a'' [Lock]) = Returned (None, Some errNoFactoryFunc) \<and>
   Create orphans ''a'' [] = (Returned (None, Some errBulkOpAborted), [Lock, Unlock]) \<and>
   errBulkOpAborted \<noteq> errNoFactoryFunc"
  by (simp add: orphans_def NewMongoCollection_def Create_def MutexExec_def createCore_def
      makeOne_def)

section \<open>Read when the driver fails\<close>

text \<open>
  C2 says \<open>Read\<close> returns false both when the document does not exist and when the read
  fails with an error. On the collection \<open>lost\<close>, whose driver fails every call with an
  error other than not-found, \<open>Read\<close> returns true although no entry was produced:
  \<open>FindById\<close> compares the driver's error with \<open>ErrNotFound\<close> alone.
\<close>

theorem Read_on_read_error:
  "sess (Database lost) [] (C_FindId_One (Collection lost) ''414243444546474849505152'')
     = Returned (Some (LibError ''no reachable servers'')) \<and>
   Read lost ''414243444546474849505152'' []
     = (Returned True, [Mgo (C_FindId_One ''widgets'' ''414243444546474849505152'')])"
  by (simp add: lost_def NewMongoCollection_def db_down_def Read_def Db_FindById_def
      session_call_def)

section \<open>Update with a well-formed identifier\<close>

text \<open>
  C3, as the code has it. When the identifier parses to \<open>b\<close>, a factory is installed and
  it returns an entry \<open>e\<close> for the parameters, \<open>Update\<close> calls the factory once, gives the
  entry the identity \<open>b\<close>, and issues exactly one driver update on the collection, selected
  by \<open>_id = b\<close>, whose update document is the entry under the operator \<open>$set\<close>: the fields
  of the entry are set on the stored document, the document is not replaced. The call
  returns the entry with its new identity beside the driver's error, and panics when the
  driver does.
\<close>

theorem Update_sets_fields:
  "GetObjectIDFromString lib entryID = (b, None) \<Longrightarrow>
   factoryFunc c = Some f \<Longrightarrow> f params = Returned (Some e) \<Longrightarrow>
   Update lib c entryID params tr =
     (case sess (Database c) (tr @ [Lock, FactoryCall params])
             (C_Update (Collection c) (ValM [(''_id'', ValObjectId b)])
                (ValM [(''$set'', ValEntry (Some (e\<lparr>ID := b\<rparr>)))])) of
        Returned err \<Rightarrow> Returned (Some (e\<lparr>ID := b\<rparr>), err)
      | Panicked \<Rightarrow> Panicked,
      tr @ [Lock, FactoryCall params,
            Mgo (C_Update (Collection c) (ValM [(''_id'', ValObjectId b)])
                   (ValM [(''$set'', ValEntry (Some (e\<lparr>ID := b\<rparr>)))])),
            Unlock])"
  by (simp add: Let_def Update_def MutexExec_def Db_Update_def session_call_def SetBsonID_def
      split: outcome.splits)

text \<open>The statement above on \<open>widgets\<close>, for a 24-digit identifier and the name \<open>a\<close>.\<close>

theorem Update_sets_fields_witness:
  "GetObjectIDFromString (bson_spec ''fresh-id-000'') ''414243444546474849505152''
     = (''ABCDEFGHIPQR'', None) \<and>
   factoryFunc widgets = Some widget_factory \<and>
   widget_factory ''a'' = Returned (Some \<lparr>ID = [], name = ''a''\<rparr>) \<and>
   Update (bson_spec ''fresh-id-000'') widgets ''414243444546474849505152'' ''a'' [] =
     (Returned (Some \<lparr>ID = ''ABCDEFGHIPQR'', name = ''a''\<rparr>, None),
      [Lock, FactoryCall ''a'',
       Mgo (C_Update ''widgets'' (ValM [(''_id'', ValObjectId ''ABCDEFGHIPQR'')])
              (ValM [(''$set'', ValEntry (Some \<lparr>ID = ''ABCDEFGHIPQR'', name = ''a''\<rparr>))])),
       Unlock])"
proof -
  have h1: "GetObjectIDFromString (bson_spec ''fresh-id-000'') ''414243444546474849505152''
     = (''ABCDEFGHIPQR'', None)" by (rule parse_example)
  have h2: "factoryFunc widgets = Some widget_factory"
    by (simp add: widgets_def SetFactoryFunc_def)
  have h3: "widget_factory ''a'' = Returned (Some \<lparr>ID = [], name = ''a''\<rparr>)"
    by (simp add: widget_factory_def)
  have h4: "Collection widgets = ''widgets''" "sess (Database widgets) = (\<lambda>tr call. Returned None)"
    by (simp_all add: widgets_def SetFactoryFunc_def NewMongoCollection_def db_ok_def)
  from Update_sets_fields [OF h1 h2 h3, of "[]"] h1 h2 h3 h4
  show ?thesis by simp
qed

text \<open>
  C3 as worded says the write is a full-document replace. For the same call on \<open>widgets\<close>
  the only driver call issued is the \<open>$set\<close> update; the full-document replace of that
  entry is not among the events.
\<close>

theorem Update_sets_fields_counterexample:
  "issued (Update (bson_spec ''fresh-id-000'') widgets ''414243444546474849505152'' ''a'') [] =
     [Lock, FactoryCall ''a'',
      Mgo (C_Update ''widgets'' (ValM [(''_id'', ValObjectId ''ABCDEFGHIPQR'')])
             (ValM [(''$set'', ValEntry (Some \<lparr>ID = ''ABCDEFGHIPQR'', name = ''a''\<rparr>))])),
      Unlock] \<and>
   Mgo (full_document_replace ''widgets'' ''ABCDEFGHIPQR''
          (Some \<lparr>ID = ''ABCDEFGHIPQR'', name = ''a''\<rparr>))
     \<notin> set (issued (Update (bson_spec ''fresh-id-000'') widgets ''414243444546474849505152'' ''a'') [])"
  by (simp add: Let_def issued_def Update_def MutexExec_def Db_Update_def session_call_def
      SetBsonID_def widgets_def SetFactoryFunc_def NewMongoCollection_def widget_factory_def
      db_ok_def parse_example full_document_replace_def)

section \<open>CreateBulk is all or nothing\<close>

text \<open>
  C4. One failed construction among the pairs, wherever it stands and whatever the other
  pairs are, makes the partial-failure check report a failure; and when the construction
  loop of \<open>CreateBulk\<close> ends with such a pair among its pairs, \<open>CreateBulk\<close> returns no
  entries and \<open>errBulkOpAborted\<close> and has issued no write. The factory itself has no
  error result, so the construction error a run can meet is the one \<open>makeOne\<close> reports:
  if it reports an error for some parameter of the list, the only events of \<open>CreateBulk\<close>
  are taking and releasing the mutex. And whenever \<open>CreateBulk\<close> issues an insert, the
  documents inserted are, position by position, the entries constructed without error
  from the parameters.
\<close>

theorem CreateBulk_all_or_nothing:
  "(v \<in> set entryerr \<and> Error v \<noteq> None \<longrightarrow> CheckPartFail entryerr) \<and>
   (createCore_loop c ps [] (tr @ [Lock]) = (Returned entryerr, tr') \<and>
    v \<in> set entryerr \<and> Error v \<noteq> None \<longrightarrow>
      CreateBulk c ps tr = (Returned ([], Some errBulkOpAborted), tr' @ [Unlock]) \<and>
      writes (issued (CreateBulk c ps) tr) = []) \<and>
   (p \<in> set ps \<and> fst (makeOne c p tr0) = Returned (e, Some err) \<longrightarrow>
      CreateBulk c ps tr = (Returned ([], Some errBulkOpAborted), tr @ [Lock, Unlock]) \<and>
      writes (issued (CreateBulk c ps) tr) = []) \<and>
   (Mgo (C_Insert coll docs) \<in> set (issued (CreateBulk c ps) tr) \<longrightarrow>
      list_all2 (\<lambda>p d. fst (makeOne c p []) = Returned (d, None)) ps docs)"
proof (intro conjI impI)
  assume "v \<in> set entryerr \<and> Error v \<noteq> None"
  then show "CheckPartFail entryerr"
    by (blast intro: CheckPartFail_member)
next
  assume h: "createCore_loop c ps [] (tr @ [Lock]) = (Returned entryerr, tr') \<and>
    v \<in> set entryerr \<and> Error v \<noteq> None"
  then have l: "createCore_loop c ps [] (tr @ [Lock]) = (Returned entryerr, tr')"
    and v: "v \<in> set entryerr" and e: "Error v \<noteq> None"
    by simp_all
  show "CreateBulk c ps tr = (Returned ([], Some errBulkOpAborted), tr' @ [Unlock])"
    by (rule CreateBulk_part_fail(1) [OF l v e])
  show "writes (issued (CreateBulk c ps) tr) = []"
    by (rule CreateBulk_part_fail(2) [OF l v e])
next
  assume h: "p \<in> set ps \<and> fst (makeOne c p tr0) = Returned (e, Some err)"
  then have nf: "factoryFunc c = None" by (blast dest: makeOne_error_no_factory)
  from h have ne: "ps \<noteq> []" by auto
  show "CreateBulk c ps tr = (Returned ([], Some errBulkOpAborted), tr @ [Lock, Unlock])"
    by (rule CreateBulk_no_factory [OF nf ne])
  then show "writes (issued (CreateBulk c ps) tr) = []"
    by (simp add: issued_def writes_def)
next
  assume "Mgo (C_Insert coll docs) \<in> set (issued (CreateBulk c ps) tr)"
  then show "list_all2 (\<lambda>p d. fst (makeOne c p []) = Returned (d, None)) ps docs"
    by (rule CreateBulk_inserts_constructed)
qed

text \<open>
  Each part at a concrete input: three pairs of which only the middle one failed; two
  parameters on \<open>orphans\<close>, where the loop ends with failed pairs; and the same two on
  \<open>widgets\<close>, where an insert is issued.
\<close>

theorem CreateBulk_all_or_nothing_witness:
  "\<lparr>Entry = None, Error = Some errNoFactoryFunc\<rparr>
     \<in> set [\<lparr>Entry = Some \<lparr>ID = [], name = ''a''\<rparr>, Error = None\<rparr>,
            \<lparr>Entry = None, Error = Some errNoFactoryFunc\<rparr>,
            \<lparr>Entry = Some \<lparr>ID = [], name = ''c''\<rparr>, Error = None\<rparr>] \<and>
   CheckPartFail [\<lparr>Entry = Some \<lparr>ID = [], name = ''a''\<rparr>, Error = None\<rparr>,
                  \<lparr>Entry = None, Error = Some errNoFactoryFunc\<rparr>,
                  \<lparr>Entry = Some \<lparr>ID = [], name = ''c''\<rparr>, Error = None\<rparr>] \<and>
   createCore_loop orphans [''a'', ''b''] [] [Lock] =
     (Returned [\<lparr>Entry = None, Error = Some errNoFactoryFunc\<rparr>,
                \<lparr>Entry = None, Error = Some errNoFactoryFunc\<rparr>], [Lock]) \<and>
   ''b'' \<in> set [''a'', ''b''] \<and>
   fst (makeOne orphans ''b'' []) = Returned (None, Some errNoFactoryFunc) \<and>
   CreateBulk orphans [''a'', ''b''] [] = (Returned ([], Some errBulkOpAborted), [Lock, Unlock]) \<and>
   writes (issued (CreateBulk orphans [''a'', ''b'']) []) = [] \<and>
   Mgo (C_Insert ''widgets'' [Some \<lparr>ID = [], name = ''a''\<rparr>, Some \<lparr>ID = [], name = ''b''\<rparr>])
     \<in> set (issued (CreateBulk widgets [''a'', ''b'']) []) \<and>
   list_all2 (\<lambda>p d. fst (makeOne widgets p []) = Returned (d, None)) [''a'', ''b'']
     [Some \<lparr>ID = [], name = ''a''\<rparr>, Some \<lparr>ID = [], name = ''b''\<rparr>]"
proof -
  have h0: "\<lparr>Entry = None, Error = Some errNoFactoryFunc\<rparr>
     \<in> set [\<lparr>Entry = Some \<lparr>ID = [], name = ''a''\<rparr>, Error = None\<rparr>,
            \<lparr>Entry = None, Error = Some errNoFactoryFunc\<rparr>,
            \<lparr>Entry = Some \<lparr>ID = [], name = ''c''\<rparr>, Error = None\<rparr>] \<and>
     Error \<lparr>Entry = (None :: widget option), Error = Some errNoFactoryFunc\<rparr> \<noteq> None"
    by simp
  have h1: "createCore_loop orphans [''a'', ''b''] [] ([] @ [Lock]) =
     (Returned [\<lparr>Entry = None, Error = Some errNoFactoryFunc\<rparr>,
                \<lparr>Entry = None, Error = Some errNoFactoryFunc\<rparr>], [Lock]) \<and>
     \<lparr>Entry = None, Error = Some errNoFactoryFunc\<rparr>
       \<in> set [\<lparr>Entry = (None :: widget option), Error = Some errNoFactoryFunc\<rparr>,
              \<lparr>Entry = None, Error = Some errNoFactoryFunc\<rparr>] \<and>
     Error \<lparr>Entry = (None :: widget option), Error = Some errNoFactoryFunc\<rparr> \<noteq> None"
    by (simp add: orphans_def NewMongoCollection_def makeOne_def)
  have h2: "''b'' \<in> set [''a'', ''b''] \<and>
      fst (makeOne orphans ''b'' []) = Returned (None, Some errNoFactoryFunc)"
    by (simp add: orphans_def NewMongoCollection_def makeOne_def)
  have h3: "Mgo (C_Insert ''widgets'' [Some \<lparr>ID = [], name = ''a''\<rparr>, Some \<lparr>ID = [], name = ''b''\<rparr>])
     \<in> set (issued (CreateBulk widgets [''a'', ''b'']) [])"
    by (simp add: Let_def issued_def CreateBulk_def MutexExec_def createCore_def makeOne_def
        MakeEntrySlice_def insertCore_def Db_Insert_def session_call_def widgets_def
        SetFactoryFunc_def NewMongoCollection_def widget_factory_def db_ok_def)
  have r1: "CheckPartFail [\<lparr>Entry = Some \<lparr>ID = [], name = ''a''\<rparr>, Error = None\<rparr>,
                  \<lparr>Entry = None, Error = Some errNoFactoryFunc\<rparr>,
                  \<lparr>Entry = Some \<lparr>ID = [], name = ''c''\<rparr>, Error = None\<rparr>]"
    by (rule CreateBulk_all_or_nothing [THEN conjunct1, THEN mp, OF h0])
  note r2 = CreateBulk_all_or_nothing
    [THEN conjunct2, THEN conjunct1, THEN mp, OF h1]
  note r3 = CreateBulk_all_or_nothing
    [THEN conjunct2, THEN conjunct2, THEN conjunct1, THEN mp, OF h2, of "[]"]
  have r4: "list_all2 (\<lambda>p d. fst (makeOne widgets p []) = Returned (d, None)) [''a'', ''b'']
     [Some \<lparr>ID = [], name = ''a''\<rparr>, Some \<lparr>ID = [], name = ''b''\<rparr>]"
    by (rule CreateBulk_all_or_nothing
          [THEN conjunct2, THEN conjunct2, THEN conjunct2, THEN mp, OF h3])
  have l: "createCore_loop orphans [''a'', ''b''] [] [Lock] =
     (Returned [\<lparr>Entry = None, Error = Some errNoFactoryFunc\<rparr>,
                \<lparr>Entry = None, Error = Some errNoFactoryFunc\<rparr>], [Lock])"
    using h1 by simp
  have m: "\<lparr>Entry = None, Error = Some errNoFactoryFunc\<rparr>
     \<in> set [\<lparr>Entry = Some \<lparr>ID = [], name = ''a''\<rparr>, Error = None\<rparr>,
            \<lparr>Entry = None, Error = Some errNoFactoryFunc\<rparr>,
            \<lparr>Entry = Some \<lparr>ID = [], name = ''c''\<rparr>, Error = None\<rparr>]"
    using h0 by (rule conjunct1)
  have w: "CreateBulk orphans [''a'', ''b''] [] = (Returned ([], Some errBulkOpAborted), [Lock, Unlock])"
    using r2 by simp
  have w': "writes (issued (CreateBulk orphans [''a'', ''b'']) []) = []"
    using r3 by (rule conjunct2)
  show ?thesis
    by (intro conjI m r1 l h2 [THEN conjunct1] h2 [THEN conjunct2] w w' h3 r4)
qed

section \<open>CreateBulk inserts once, in order\<close>

text \<open>
  C5. When a factory is installed and returns an entry for each of the N parameters,
  \<open>CreateBulk\<close> issues exactly one write, a single insert on the collection carrying the
  N constructed entries in the order of the parameters, after the N factory calls and
  under the mutex. It returns those entries when the driver reports no error.
\<close>

theorem CreateBulk_one_batched_insert:
  "factoryFunc c = Some f \<Longrightarrow> map f ps = map Returned es \<Longrightarrow>
   length es = length ps \<and>
   issued (CreateBulk c ps) tr =
     [Lock] @ map FactoryCall ps @ [Mgo (C_Insert (Collection c) es), Unlock] \<and>
   writes (issued (CreateBulk c ps) tr) = [Mgo (C_Insert (Collection c) es)] \<and>
   fst (CreateBulk c ps tr) =
     (case sess (Database c) (tr @ [Lock] @ map FactoryCall ps) (C_Insert (Collection c) es) of
        Returned err \<Rightarrow> if err \<noteq> None then Returned ([], err) else Returned (es, None)
      | Panicked \<Rightarrow> Returned ([], Some errPanic))"
proof -
  assume f: "factoryFunc c = Some f" and es: "map f ps = map Returned es"
  have len: "length es = length ps"
    using es by (metis length_map)
  have nw: "filter is_write (map FactoryCall ps) = []"
    by (induction ps) simp_all
  note cb = CreateBulk_success [OF f es, of tr]
  show ?thesis
    using len by (simp add: cb issued_def writes_def nw)
qed

text \<open>The statement above on \<open>widgets\<close> with the names \<open>a\<close> and \<open>b\<close>.\<close>

theorem CreateBulk_one_batched_insert_witness:
  "factoryFunc widgets = Some widget_factory \<and>
   map widget_factory [''a'', ''b'']
     = map Returned [Some \<lparr>ID = [], name = ''a''\<rparr>, Some \<lparr>ID = [], name = ''b''\<rparr>] \<and>
   issued (CreateBulk widgets [''a'', ''b'']) [] =
     [Lock, FactoryCall ''a'', FactoryCall ''b'',
      Mgo (C_Insert ''widgets'' [Some \<lparr>ID = [], name = ''a''\<rparr>, Some \<lparr>ID = [], name = ''b''\<rparr>]),
      Unlock] \<and>
   fst (CreateBulk widgets [''a'', ''b''] [])
     = Returned ([Some \<lparr>ID = [], name = ''a''\<rparr>, Some \<lparr>ID = [], name = ''b''\<rparr>], None)"
proof -
  have h1: "factoryFunc widgets = Some widget_factory"
    by (simp add: widgets_def SetFactoryFunc_def)
  have h2: "map widget_factory [''a'', ''b'']
     = map Returned [Some \<lparr>ID = [], name = ''a''\<rparr>, Some \<lparr>ID = [], name = ''b''\<rparr>]"
    by (simp add: widget_factory_def)
  have h3: "Collection widgets = ''widgets''" "sess (Database widgets) = (\<lambda>tr call. Returned None)"
    by (simp_all add: widgets_def SetFactoryFunc_def NewMongoCollection_def db_ok_def)
  from CreateBulk_one_batched_insert [OF h1 h2, of "[]"] h1 h2 h3
  show ?thesis by simp
qed

section \<open>A panicking factory under Create\<close>

text \<open>
  C6 says a panic raised while the factory runs is caught by every method of the
  collection and turned into \<open>errPanic\<close>. The factory of \<open>widgets\<close> panics on the empty
  name. \<open>CreateBulk\<close>, which defers a recover, returns \<open>errPanic\<close> for it; \<open>Create\<close>,
  which runs the same \<open>createCore\<close> without a recover, releases the mutex and passes the
  panic to its caller.
\<close>

theorem Create_factory_panic:
  "widget_factory [] = Panicked \<and>
   Create widgets [] [] = (Panicked, [Lock, FactoryCall [], Unlock]) \<and>
   CreateBulk widgets [[]] [] = (Returned ([], Some errPanic), [Lock, FactoryCall [], Unlock])"
  by (simp add: Create_def CreateBulk_def MutexExec_def createCore_def makeOne_def
      widgets_def SetFactoryFunc_def NewMongoCollection_def widget_factory_def)

section \<open>Parsing a malformed identifier\<close>




section \<open>Update with a malformed identifier\<close>




section \<open>CreateBulk with no parameters\<close>

text \<open>
  C10. On the empty parameter list the partial-failure check finds no failure, so
  \<open>CreateBulk\<close> does not abort: under the mutex it issues one insert on the collection
  carrying zero documents, and returns the driver's error for it (\<open>errPanic\<close> if the
  driver panics). This holds with or without a factory.
\<close>

theorem CreateBulk_empty_params:
  "CheckPartFail ([] :: 'x EntryErrorPairs) = False \<and>
   issued (CreateBulk c []) tr = [Lock, Mgo (C_Insert (Collection c) []), Unlock] \<and>
   fst (CreateBulk c [] tr) =
     (case sess (Database c) (tr @ [Lock]) (C_Insert (Collection c) []) of
        Returned err \<Rightarrow> Returned ([], err)
      | Panicked \<Rightarrow> Returned ([], Some errPanic))"
  by (simp add: CreateBulk_empty issued_def split: outcome.splits)

text \<open>The statement above on \<open>orphans\<close>.\<close>

theorem CreateBulk_empty_params_witness:
  "issued (CreateBulk orphans []) [] = [Lock, Mgo (C_Insert ''widgets'' []), Unlock] \<and>
   fst (CreateBulk orphans [] []) = Returned ([], None)"
  using CreateBulk_empty_params [of orphans "[]"]
  by (simp add: orphans_def NewMongoCollection_def db_ok_def)

end
